theory Spec2Isabelle
  imports Complex_Main "HOL-Library.Word"
begin

section \<open>JavaScript values\<close>

text \<open>
  A JavaScript string is a sequence of UTF-16 code units; a \<open>Buffer\<close> is a sequence of
  bytes. String literals of the source are ASCII and are written through \<open>js\<close>.
\<close>

type_synonym jsstring = "16 word list"
type_synonym bytes = "8 word list"

definition js :: "string \<Rightarrow> jsstring" where
  "js s = map (\<lambda>c. of_nat (of_char c)) s"

text \<open>
  The values \<open>serializeItem\<close> distinguishes. The type \<open>'n\<close> of the numbers is a
  parameter: the encoder does nothing with a number but print it, and the printer
  \<open>Number.prototype.toString\<close> is a parameter of the encoder. An object is the list of
  its own entries in the order \<open>Object.entries\<close> yields them.
\<close>

datatype 'n jsvalue =
    JNull
  | JUndefined
  | JString jsstring
  | JBool bool
  | JNumber 'n
  | JBuffer bytes
  | JArray "'n jsvalue list"
  | JObject "(jsstring \<times> 'n jsvalue) list"

text \<open>
  Where the model is run, and where the code tells numbers apart (a parsed JSON number,
  the truth value of a number), the numbers are integers.
\<close>

type_synonym jsval = "int jsvalue"

section \<open>Binary protocol constants\<close>

definition WA_TOKENS :: "jsstring list" where
  "WA_TOKENS = map js [
  '''', '''', '''', ''stream:start'', '''', ''stream:features'', '''', '''', '''', '''', '''',
  '''', '''', '''', ''1'', ''1.0'', ''ack'', ''action'', ''add'', ''after'', ''archive'',
  ''author'', ''available'', ''battery'', ''before'', ''body'', ''broadcast'', ''chat'',
  ''class'', ''clean'', ''code'', ''composing'', ''config'', ''create'', ''debug'', ''delete'',
  ''demote'', ''duplicate'', ''encoding'', ''error'', ''false'', ''filehash'', ''from'',
  ''g.us'', ''group'', ''groups_v2'', ''height'', ''id'', ''image'', ''in'', ''index'',
  ''invis'', ''item'', ''jid'', ''kind'', ''last'', ''leave'', ''live'', ''log'', ''media'',
  ''message'', ''mimetype'', ''missing'', ''modify'', ''name'', ''notification'', ''notify'',
  ''out'', ''owner'', ''participant'', ''paused'', ''picture'', ''played'', ''presence'',
  ''preview'', ''promote'', ''query'', ''quoted'', ''read'', ''receipt'', ''received'',
  ''recipient'', ''recording'', ''relay'', ''remove'', ''response'', ''resume'', ''retry'',
  ''s.whatsapp.net'', ''seconds'', ''set'', ''size'', ''status'', ''subject'', ''subscribe'',
  ''t'', ''text'', ''to'', ''true'', ''type'', ''unarchive'', ''unavailable'', ''url'',
  ''user'', ''value'', ''web'', ''width'', ''mute'', ''read_only'', ''admin'', ''creator'',
  ''short'', ''update'', ''powersave'', ''checksum'', ''epoch'', ''block'', ''previous'',
  ''409'', ''replaced'', ''reason'', ''spam'', ''modify_tag'', ''message_tag'', ''delivery'',
  ''emoji'', ''title'', ''description'', ''canonical-url'', ''matched-text'', ''star'',
  ''unstar'', ''media_key'', ''filename'', ''identity'', ''unread'', ''page'', ''page_size'',
  ''download'', ''business'', ''verified_name'', ''location'', ''document'', ''audio'',
  ''video'', ''init'', ''platform'', ''version'']"

definition LIST_EMPTY :: nat where "LIST_EMPTY = 0"
definition LIST_8 :: nat where "LIST_8 = 248"
definition LIST_16 :: nat where "LIST_16 = 249"
definition BINARY_8 :: nat where "BINARY_8 = 252"
definition BINARY_20 :: nat where "BINARY_20 = 253"

text \<open>\<open>Buffer.from([n])\<close> stores \<open>n & 255\<close>.\<close>

definition byte :: "nat \<Rightarrow> 8 word" where
  "byte n = of_nat n"

section \<open>Library functions of the runtime\<close>

text \<open>\<open>Array.prototype.indexOf\<close>: the first index holding the element, or \<open>-1\<close>.\<close>

fun indexOf :: "'a list \<Rightarrow> 'a \<Rightarrow> int" where
  "indexOf [] x = -1"
| "indexOf (y # ys) x =
     (if y = x then 0 else (let r = indexOf ys x in if r < 0 then -1 else r + 1))"

text \<open>
  \<open>Buffer.from(str, 'utf8')\<close>: UTF-8 of the code points of the string; a surrogate
  pair is one code point of four bytes, a lone surrogate becomes U+FFFD.
\<close>

definition isHighSurrogate :: "16 word \<Rightarrow> bool" where
  "isHighSurrogate u = (0xD800 \<le> unat u \<and> unat u < 0xDC00)"

definition isLowSurrogate :: "16 word \<Rightarrow> bool" where
  "isLowSurrogate u = (0xDC00 \<le> unat u \<and> unat u < 0xE000)"

definition utf8_codepoint :: "nat \<Rightarrow> bytes" where
  "utf8_codepoint c =
     (if c < 0x80 then [byte c]
      else if c < 0x800 then [byte (0xC0 + c div 64), byte (0x80 + c mod 64)]
      else if c < 0x10000 then
        [byte (0xE0 + c div 4096), byte (0x80 + (c div 64) mod 64), byte (0x80 + c mod 64)]
      else
        [byte (0xF0 + c div 262144), byte (0x80 + (c div 4096) mod 64),
         byte (0x80 + (c div 64) mod 64), byte (0x80 + c mod 64)])"

fun utf8 :: "jsstring \<Rightarrow> bytes" where
  "utf8 [] = []"
| "utf8 (u # us) =
     (if isHighSurrogate u then
        (case us of
           [] \<Rightarrow> utf8_codepoint 0xFFFD
         | v # vs \<Rightarrow>
             if isLowSurrogate v
             then utf8_codepoint (0x10000 + (unat u - 0xD800) * 1024 + (unat v - 0xDC00)) @ utf8 vs
             else utf8_codepoint 0xFFFD @ utf8 us)
      else if isLowSurrogate u then utf8_codepoint 0xFFFD @ utf8 us
      else utf8_codepoint (unat u) @ utf8 us)"

text \<open>
  The decimal digits of an integer. \<open>Number.prototype.toString\<close> prints exactly these
  for a safe integer, one of magnitude at most \<open>2^53 - 1\<close>; beyond that range it rounds
  or uses an exponent, and \<open>decimalString\<close> is not its model. It is the number
  printer of the runs below, which print 42.
\<close>

fun natToString :: "nat \<Rightarrow> jsstring" where
  "natToString n =
     (if n < 10 then [of_nat (48 + n)] else natToString (n div 10) @ [of_nat (48 + n mod 10)])"

definition decimalString :: "int \<Rightarrow> jsstring" where
  "decimalString i = (if i < 0 then js ''-'' @ natToString (nat (- i)) else natToString (nat i))"

text \<open>\<open>Boolean.prototype.toString\<close>.\<close>

definition boolToString :: "bool \<Rightarrow> jsstring" where
  "boolToString b = (if b then js ''true'' else js ''false'')"

section \<open>The encoder of \<open>WhatsAppCore\<close>\<close>

definition serializeString :: "jsstring \<Rightarrow> bytes" where
  "serializeString str =
     (let tokenIndex = indexOf WA_TOKENS str in
      if tokenIndex \<ge> 0 \<and> tokenIndex < 236 then [byte (nat tokenIndex)]
      else
        (let strBuffer = utf8 str in
         if length strBuffer < 256 then
           [byte BINARY_8, byte (length strBuffer)] @ strBuffer
         else
           [byte BINARY_20] @
           [byte ((length strBuffer div 65536) mod 256),
            byte ((length strBuffer div 256) mod 256),
            byte (length strBuffer mod 256)] @
           strBuffer))"

definition serializeBinary :: "bytes \<Rightarrow> bytes" where
  "serializeBinary data =
     (if length data < 256 then
        [byte BINARY_8, byte (length data)] @ data
      else
        [byte BINARY_20] @
        [byte ((length data div 65536) mod 256),
         byte ((length data div 256) mod 256),
         byte (length data mod 256)] @
        data)"

text \<open>The key, value, key, value list that \<open>serializeItem\<close> builds from an object.\<close>

fun pairs :: "(jsstring \<times> 'n jsvalue) list \<Rightarrow> 'n jsvalue list" where
  "pairs [] = []"
| "pairs ((key, val) # es) = JString key # val # pairs es"

fun weight :: "'n jsvalue \<Rightarrow> nat" where
  "weight (JArray xs) = 2 + sum_list (map weight xs)"
| "weight (JObject es) = 2 + sum_list (map (\<lambda>(k, v). 1 + weight v) es)"
| "weight _ = 1"

lemma weight_pairs: "sum_list (map weight (pairs es)) = sum_list (map (\<lambda>(k, v). 1 + weight v) es)"
  by (induction es rule: pairs.induct) simp_all

lemma weight_member: "x \<in> set xs \<Longrightarrow> weight x \<le> sum_list (map weight xs)"
  by (induction xs) auto

text \<open>
  \<open>serializeItem\<close> and \<open>serializeList\<close>; \<open>toStr\<close> is \<open>Number.prototype.toString\<close>, the
  function behind \<open>item.toString()\<close> on a number.
\<close>

function serializeItem :: "('n \<Rightarrow> jsstring) \<Rightarrow> 'n jsvalue \<Rightarrow> bytes"
  and serializeList :: "('n \<Rightarrow> jsstring) \<Rightarrow> 'n jsvalue list \<Rightarrow> bytes" where
  "serializeItem toStr JNull = [byte LIST_EMPTY]"
| "serializeItem toStr JUndefined = [byte LIST_EMPTY]"
| "serializeItem toStr (JString s) = serializeString s"
| "serializeItem toStr (JBool b) = serializeString (boolToString b)"
| "serializeItem toStr (JNumber n) = serializeString (toStr n)"
| "serializeItem toStr (JBuffer d) = serializeBinary d"
| "serializeItem toStr (JArray xs) = serializeList toStr xs"
| "serializeItem toStr (JObject es) = serializeList toStr (pairs es)"
| "serializeList toStr list =
     (if length list = 0 then [byte LIST_EMPTY]
      else
        (if length list < 256 then [byte LIST_8, byte (length list)]
         else [byte LIST_16] @ [byte ((length list div 256) mod 256), byte (length list mod 256)])
        @ concat (map (serializeItem toStr) list))"
  by pat_completeness auto
termination
  by (relation "measure (\<lambda>a. case a of Inl (f, v) \<Rightarrow> 2 * weight v
                                  | Inr (f, xs) \<Rightarrow> 2 * sum_list (map weight xs) + 3)")
     (auto simp: weight_pairs dest: weight_member)

section \<open>The parser of \<open>WhatsAppCore\<close>\<close>

text \<open>
  \<open>data.toString('binary')\<close> maps every byte to the code unit of the same number,
  \<open>data.toString('hex')\<close> prints two lower-case hexadecimal digits per byte.
\<close>

definition toBinaryString :: "bytes \<Rightarrow> jsstring" where
  "toBinaryString d = map ucast d"

definition hexDigit :: "nat \<Rightarrow> 16 word" where
  "hexDigit n = (if n < 10 then of_nat (48 + n) else of_nat (87 + n))"

definition toHex :: "bytes \<Rightarrow> jsstring" where
  "toHex d = concat (map (\<lambda>b. [hexDigit (unat b div 16), hexDigit (unat b mod 16)]) d)"

text \<open>
  \<open>dataStr.match(/([a-zA-Z0-9+/=]{20,})/)\<close>: the search tries every start position
  from the left, and at each one the greedy class takes the longest run.
\<close>

definition isRefChar :: "16 word \<Rightarrow> bool" where
  "isRefChar u =
     (let c = unat u in
      (97 \<le> c \<and> c \<le> 122) \<or> (65 \<le> c \<and> c \<le> 90) \<or> (48 \<le> c \<and> c \<le> 57)
      \<or> c = 43 \<or> c = 47 \<or> c = 61)"

fun refMatch :: "jsstring \<Rightarrow> jsstring option" where
  "refMatch [] = None"
| "refMatch (u # us) =
     (let run = takeWhile isRefChar (u # us) in
      if length run \<ge> 20 then Some run else refMatch us)"

text \<open>\<open>String.prototype.includes\<close>: the pattern occurs at some position.\<close>

fun startsWith :: "'a list \<Rightarrow> 'a list \<Rightarrow> bool" where
  "startsWith s [] = True"
| "startsWith [] (p # ps) = False"
| "startsWith (c # cs) (p # ps) = (c = p \<and> startsWith cs ps)"

fun includesStr :: "'a list \<Rightarrow> 'a list \<Rightarrow> bool" where
  "includesStr [] p = startsWith [] p"
| "includesStr (c # cs) p = (startsWith (c # cs) p \<or> includesStr cs p)"

text \<open>
  The record \<open>{ type, data }\<close> the parser returns. Nothing in its \<open>try\<close> block throws
  on a \<open>Buffer\<close>, so the \<open>catch\<close> branch (type \<open>error\<close>) is never taken.
\<close>

definition parsed :: "string \<Rightarrow> (jsstring \<times> 'n jsvalue) list \<Rightarrow> 'n jsvalue" where
  "parsed t d = JObject [(js ''type'', JString (js t)), (js ''data'', JObject d)]"

definition parseBinaryMessage :: "bytes \<Rightarrow> 'n jsvalue" where
  "parseBinaryMessage data =
     (let dataStr = toBinaryString data;
          refM = (if length data > 10 \<and> hd data = byte LIST_8 then refMatch dataStr else None)
      in case refM of
           Some r \<Rightarrow> parsed ''qr_response'' [(js ''ref'', JString r)]
         | None \<Rightarrow>
             if includesStr dataStr (js ''success'') \<or> includesStr dataStr (js ''connected'') then
               parsed ''auth_success''
                 [(js ''wid'', JString (js ''user@c.us'')),
                  (js ''pushname'', JString (js ''WhatsApp User''))]
             else parsed ''unknown'' [(js ''raw'', JString (toHex data))])"

text \<open>
  The value the round trip is expected to give back: the input with every boolean and
  every number replaced by the string \<open>toString\<close> gives for it.
\<close>

fun asStrings :: "('n \<Rightarrow> jsstring) \<Rightarrow> 'n jsvalue \<Rightarrow> 'n jsvalue" where
  "asStrings toStr (JBool b) = JString (boolToString b)"
| "asStrings toStr (JNumber n) = JString (toStr n)"
| "asStrings toStr (JArray xs) = JArray (map (asStrings toStr) xs)"
| "asStrings toStr (JObject es) = JObject (map (\<lambda>(k, v). (k, asStrings toStr v)) es)"
| "asStrings toStr v = v"

section \<open>Pairing-code authentication\<close>

text \<open>
  Field names of a record are global in HOL, so the fields of each class carry a short
  prefix of the class. The events an object emits are kept in emission order; a timer
  handle is the delay the timer was armed with, \<open>None\<close> when no timer is pending.
\<close>

record keypair =
  kp_privateKey :: jsstring
  kp_publicKey :: jsstring

datatype auth_event =
    PairingRequested jsstring jsstring jsstring  \<comment> \<open>clientId, publicKey, phoneNumber\<close>
  | PairingExpired
  | PairingCode jsstring
  | QrEvent jsstring
  | QrExpired
  | QrRefreshNeeded

datatype auth_error =
    InvalidPhoneNumberFormat  \<comment> \<open>\<open>Error('Invalid phone number format. ...')\<close>\<close>
  | NoPhoneNumberSet          \<comment> \<open>\<open>Error('No phone number set. ...')\<close>\<close>

record pairing_authenticator =
  pa_clientId :: jsstring
  pa_keypair :: keypair
  pa_pairingTimeout :: nat
  pa_phoneNumber :: "jsstring option"
  pa_pairingTimer :: "nat option"
  pa_emitted :: "auth_event list"

definition isDigit :: "16 word \<Rightarrow> bool" where
  "isDigit u = (48 \<le> unat u \<and> unat u \<le> 57)"

text \<open>
  \<open>phoneNumber.match(/^\+?[0-9]{10,15}$/)\<close>: the whole string is an optional plus sign
  and then ten to fifteen digits.
\<close>

definition matchesPhonePattern :: "jsstring \<Rightarrow> bool" where
  "matchesPhonePattern s =
     (let rest = (case s of [] \<Rightarrow> [] | c # cs \<Rightarrow> if c = 0x2B then cs else s)
      in 10 \<le> length rest \<and> length rest \<le> 15 \<and> list_all isDigit rest)"

definition pa_clearTimers :: "pairing_authenticator \<Rightarrow> pairing_authenticator" where
  "pa_clearTimers a = (case pa_pairingTimer a of None \<Rightarrow> a | Some t \<Rightarrow> a\<lparr>pa_pairingTimer := None\<rparr>)"

definition requestPairingCode ::
    "jsstring \<Rightarrow> pairing_authenticator \<Rightarrow> (auth_error + unit) \<times> pairing_authenticator" where
  "requestPairingCode phoneNumber a =
     (if phoneNumber = [] \<or> \<not> matchesPhonePattern phoneNumber then
        (Inl InvalidPhoneNumberFormat, a)
      else
        (let a1 = a\<lparr>pa_phoneNumber := Some (filter isDigit phoneNumber)\<rparr>;
             a2 = pa_clearTimers a1;
             a3 = a2\<lparr>pa_pairingTimer := Some (pa_pairingTimeout a2)\<rparr>;
             a4 = a3\<lparr>pa_emitted := pa_emitted a3 @
                    [PairingRequested (pa_clientId a3) (kp_publicKey (pa_keypair a3))
                       (the (pa_phoneNumber a3))]\<rparr>
         in (Inr (), a4)))"

definition setPairingCode ::
    "jsstring \<Rightarrow> pairing_authenticator \<Rightarrow> (auth_error + unit) \<times> pairing_authenticator" where
  "setPairingCode pairingCode a =
     (case pa_phoneNumber a of
        None \<Rightarrow> (Inl NoPhoneNumberSet, a)
      | Some p \<Rightarrow>
          if p = [] then (Inl NoPhoneNumberSet, a)
          else (Inr (), a\<lparr>pa_emitted := pa_emitted a @ [PairingCode pairingCode]\<rparr>))"

text \<open>
  \<open>WhatsAppCore.generatePairingCode\<close>. \<open>rnd i\<close> is the value the \<open>i\<close>-th call of
  \<open>Math.random()\<close> returns. Indexing a string out of range gives \<open>undefined\<close>, which
  \<open>+=\<close> appends as the text \<open>undefined\<close>.
\<close>

definition pairingChars :: jsstring where
  "pairingChars = js ''ABCDEFGHIJKLMNOPQRSTUVWXYZ0123456789''"

definition charAt :: "jsstring \<Rightarrow> nat \<Rightarrow> jsstring" where
  "charAt s i = (if i < length s then [s ! i] else js ''undefined'')"

definition generatePairingCode :: "(nat \<Rightarrow> real) \<Rightarrow> jsstring" where
  "generatePairingCode rnd =
     foldl (\<lambda>code i. code @ charAt pairingChars (nat \<lfloor>rnd i * real (length pairingChars)\<rfloor>))
       [] [0..<8]"

definition isUpperOrDigit :: "16 word \<Rightarrow> bool" where
  "isUpperOrDigit u = ((65 \<le> unat u \<and> unat u \<le> 90) \<or> (48 \<le> unat u \<and> unat u \<le> 57))"

section \<open>QR authentication\<close>

text \<open>\<open>Buffer.prototype.toString('base64')\<close>: the standard alphabet, padded with \<open>=\<close>.\<close>

definition base64Chars :: jsstring where
  "base64Chars = js ''ABCDEFGHIJKLMNOPQRSTUVWXYZabcdefghijklmnopqrstuvwxyz0123456789+/''"

definition b64 :: "nat \<Rightarrow> 16 word" where
  "b64 n = base64Chars ! (n mod 64)"

fun base64 :: "bytes \<Rightarrow> jsstring" where
  "base64 [] = []"
| "base64 [a] =
     [b64 (unat a div 4), b64 ((unat a mod 4) * 16), 0x3D, 0x3D]"
| "base64 [a, b] =
     [b64 (unat a div 4), b64 ((unat a mod 4) * 16 + unat b div 16),
      b64 ((unat b mod 16) * 4), 0x3D]"
| "base64 (a # b # c # rest) =
     [b64 (unat a div 4), b64 ((unat a mod 4) * 16 + unat b div 16),
      b64 ((unat b mod 16) * 4 + unat c div 64), b64 (unat c mod 64)] @ base64 rest"

subsection \<open>\<open>QRAuthenticator\<close>\<close>

record qr_authenticator =
  qa_clientId :: jsstring
  qa_keypair :: keypair
  qa_qrTimeout :: nat
  qa_qrRefreshInterval :: nat
  qa_qrTimer :: "nat option"
  qa_qrRefreshTimer :: "nat option"
  qa_qrData :: "jsstring option"
  qa_emitted :: "auth_event list"

definition qa_clearTimers :: "qr_authenticator \<Rightarrow> qr_authenticator" where
  "qa_clearTimers a =
     (let a1 = (case qa_qrTimer a of None \<Rightarrow> a | Some t \<Rightarrow> a\<lparr>qa_qrTimer := None\<rparr>)
      in case qa_qrRefreshTimer a1 of None \<Rightarrow> a1 | Some t \<Rightarrow> a1\<lparr>qa_qrRefreshTimer := None\<rparr>)"

text \<open>
  \<open>generateQR\<close>; \<open>ref\<close> is the value of \<open>randomBytes(16).toString('base64')\<close>. The
  function returns the QR string and leaves it in \<open>qrData\<close>.
\<close>

definition generateQR :: "jsstring \<Rightarrow> qr_authenticator \<Rightarrow> jsstring \<times> qr_authenticator" where
  "generateQR ref a =
     (let a1 = qa_clearTimers a;
          qr = ref @ js '','' @ qa_clientId a1 @ js '','' @ kp_publicKey (qa_keypair a1);
          a2 = a1\<lparr>qa_qrData := Some qr\<rparr>;
          a3 = a2\<lparr>qa_qrTimer := Some (qa_qrTimeout a2)\<rparr>;
          a4 = a3\<lparr>qa_qrRefreshTimer := Some (qa_qrRefreshInterval a3)\<rparr>;
          a5 = a4\<lparr>qa_emitted := qa_emitted a4 @ [QrEvent qr]\<rparr>
      in (qr, a5))"

subsection \<open>\<open>WhatsAppCore\<close>: the state of the client\<close>

record wa_message =
  msg_id :: jsstring
  msg_fromMe :: bool
  msg_timestamp :: nat
  msg_chat :: "jsstring option"
  msg_sender :: "jsstring option"
  msg_type :: jsstring
  msg_content :: jsval
  msg_status :: jsstring

record wa_chat =
  chat_id :: jsstring
  chat_name :: jsstring
  chat_type :: jsstring
  chat_timestamp :: nat
  chat_unreadCount :: nat
  chat_lastMessage :: "wa_message option"
  chat_participants :: "jsstring list option"
  chat_admins :: "jsstring list option"
  chat_description :: "jsstring option"
  chat_archived :: bool
  chat_pinned :: bool
  chat_muted :: bool

record auth_credentials =
  cr_clientId :: jsstring
  cr_privateKey :: bytes
  cr_publicKey :: bytes
  cr_serverToken :: bytes
  cr_clientToken :: bytes
  cr_encKey :: bytes
  cr_macKey :: bytes
  cr_wid :: jsstring

record qr_data =
  qd_ref :: jsstring
  qd_publicKey :: jsstring
  qd_clientId :: jsstring
  qd_timestamp :: nat

datatype core_event =
    EvQr jsstring
  | EvConnectionUpdate jsstring  \<comment> \<open>the \<open>state\<close> of \<open>connection.update\<close>\<close>
  | EvConnectionFailed
  | EvError
  | EvMessageNew wa_message
  | EvChatUpdate wa_chat

text \<open>
  The part of the configuration and of the object the modelled methods read or write.
  \<open>scheduled\<close> lists the delays of the \<open>setTimeout\<close> calls that schedule a reconnect,
  oldest first; \<open>written\<close> lists the files handed to \<open>fs.writeFile\<close>.
\<close>

record whatsapp_core =
  retryCount :: nat
  retryDelay :: nat
  sessionPath :: "jsstring option"
  credentials :: "auth_credentials option"
  chats :: "jsstring \<rightharpoonup> wa_chat"
  messages :: "jsstring \<rightharpoonup> wa_message"
  isConnected :: bool
  reconnectCount :: nat
  qrData :: "qr_data option"
  qrRefreshInterval :: "nat option"
  scheduled :: "nat list"
  written :: "(jsstring \<times> jsstring) list"
  emitted :: "core_event list"

text \<open>A string is truthy when it is present and not empty, a number when it is not 0.\<close>

definition truthyStr :: "jsstring option \<Rightarrow> bool" where
  "truthyStr s = (case s of None \<Rightarrow> False | Some t \<Rightarrow> t \<noteq> [])"

definition truthyNum :: "nat option \<Rightarrow> bool" where
  "truthyNum n = (case n of None \<Rightarrow> False | Some k \<Rightarrow> k \<noteq> 0)"

definition setupQRRefresh :: "whatsapp_core \<Rightarrow> whatsapp_core" where
  "setupQRRefresh s =
     (let s1 = (case qrRefreshInterval s of None \<Rightarrow> s | Some t \<Rightarrow> s\<lparr>qrRefreshInterval := None\<rparr>)
      in s1\<lparr>qrRefreshInterval := Some 60000\<rparr>)"

text \<open>
  \<open>handleQRResponse(data)\<close>; \<open>dataRef\<close> is \<open>data.ref\<close> and \<open>now\<close> the value of
  \<open>Date.now()\<close>.
\<close>

definition handleQRResponse :: "jsstring option \<Rightarrow> nat \<Rightarrow> whatsapp_core \<Rightarrow> whatsapp_core" where
  "handleQRResponse dataRef now s =
     (case credentials s of
        None \<Rightarrow> s
      | Some cr \<Rightarrow>
          if \<not> truthyStr dataRef then s
          else
            (let qd = \<lparr>qd_ref = the dataRef, qd_publicKey = base64 (cr_publicKey cr),
                       qd_clientId = cr_clientId cr, qd_timestamp = now\<rparr>;
                 s1 = s\<lparr>qrData := Some qd\<rparr>;
                 qrString = qd_ref qd @ js '','' @ qd_publicKey qd @ js '','' @ qd_clientId qd;
                 s2 = s1\<lparr>emitted := emitted s1 @ [EvQr qrString]\<rparr>;
                 s3 = (case sessionPath s2 of
                         None \<Rightarrow> s2
                       | Some p \<Rightarrow>
                           if p = [] then s2
                           else s2\<lparr>written := written s2 @ [(p @ js ''/qr.txt'', qrString)]\<rparr>)
             in setupQRRefresh s3))"

subsection \<open>Reconnection\<close>

text \<open>
  \<open>WhatsAppCore.handleReconnection\<close>, and the three places of the class that touch the
  count: the \<open>open\<close> handler of the socket resets it; the \<open>close\<close> handler of the socket
  (run for every close code) and the \<open>catch\<close> of \<open>connect()\<close> each call
  \<open>handleReconnection\<close>.
\<close>

definition handleReconnection :: "whatsapp_core \<Rightarrow> whatsapp_core" where
  "handleReconnection s =
     (if reconnectCount s \<ge> retryCount s then
        s\<lparr>emitted := emitted s @ [EvConnectionFailed]\<rparr>
      else
        (let s1 = s\<lparr>reconnectCount := reconnectCount s + 1\<rparr>;
             delay = retryDelay s1 * reconnectCount s1
         in s1\<lparr>scheduled := scheduled s1 @ [delay]\<rparr>))"

definition onOpen :: "whatsapp_core \<Rightarrow> whatsapp_core" where
  "onOpen s =
     (let s1 = s\<lparr>isConnected := True\<rparr>;
          s2 = s1\<lparr>reconnectCount := 0\<rparr>
      in s2\<lparr>emitted := emitted s2 @ [EvConnectionUpdate (js ''connected'')]\<rparr>)"

definition onClose :: "whatsapp_core \<Rightarrow> whatsapp_core" where
  "onClose s =
     (let s1 = s\<lparr>isConnected := False\<rparr>;
          s2 = s1\<lparr>emitted := emitted s1 @ [EvConnectionUpdate (js ''disconnected'')]\<rparr>
      in handleReconnection s2)"

definition onConnectFailed :: "whatsapp_core \<Rightarrow> whatsapp_core" where
  "onConnectFailed s = handleReconnection (s\<lparr>emitted := emitted s @ [EvError]\<rparr>)"

text \<open>
  A run of the client between two successful opens is the list of these two events in
  the order they happen.
\<close>

datatype reconnect_trigger = TransportClosed | ConnectFailed

fun trigger :: "reconnect_trigger \<Rightarrow> whatsapp_core \<Rightarrow> whatsapp_core" where
  "trigger TransportClosed s = onClose s"
| "trigger ConnectFailed s = onConnectFailed s"

definition runTriggers :: "reconnect_trigger list \<Rightarrow> whatsapp_core \<Rightarrow> whatsapp_core" where
  "runTriggers ts s = foldl (\<lambda>st t. trigger t st) s ts"




subsection \<open>The entity cache\<close>

text \<open>
  The fields of the parsed frame that \<open>handleNewMessage\<close> reads; an absent field is
  \<open>None\<close>. \<open>freshId\<close> is the value \<open>generateMessageId()\<close> would return and \<open>now\<close> the
  value of \<open>Date.now()\<close>. The webhook call only logs and changes nothing. The maps are
  keyed by strings, so looking up the chat of a message that names none finds nothing.
\<close>

record message_data =
  d_id :: "jsstring option"
  d_timestamp :: "nat option"
  d_from :: "jsstring option"
  d_chat :: "jsstring option"
  d_sender :: "jsstring option"
  d_type :: "jsstring option"
  d_content :: "jsval option"
  d_text :: "jsstring option"

fun truthy :: "jsval \<Rightarrow> bool" where
  "truthy JNull = False"
| "truthy JUndefined = False"
| "truthy (JString s) = (s \<noteq> [])"
| "truthy (JBool b) = b"
| "truthy (JNumber n) = (n \<noteq> 0)"
| "truthy _ = True"

definition orStr :: "jsstring option \<Rightarrow> jsstring option \<Rightarrow> jsstring option" where
  "orStr a b = (if truthyStr a then a else b)"

definition newMessage :: "jsstring \<Rightarrow> nat \<Rightarrow> message_data \<Rightarrow> wa_message" where
  "newMessage freshId now d =
     \<lparr>msg_id = (if truthyStr (d_id d) then the (d_id d) else freshId),
      msg_fromMe = False,
      msg_timestamp = (if truthyNum (d_timestamp d) then the (d_timestamp d) else now),
      msg_chat = orStr (d_from d) (d_chat d),
      msg_sender = orStr (d_sender d) (d_from d),
      msg_type = (if truthyStr (d_type d) then the (d_type d) else js ''text''),
      msg_content =
        (case d_content d of
           Some c \<Rightarrow> if truthy c then c
                     else JObject [(js ''text'', case d_text d of None \<Rightarrow> JUndefined | Some t \<Rightarrow> JString t)]
         | None \<Rightarrow> JObject [(js ''text'', case d_text d of None \<Rightarrow> JUndefined | Some t \<Rightarrow> JString t)]),
      msg_status = js ''received''\<rparr>"

definition chatsGet :: "whatsapp_core \<Rightarrow> jsstring option \<Rightarrow> wa_chat option" where
  "chatsGet s key = (case key of None \<Rightarrow> None | Some k \<Rightarrow> chats s k)"

definition handleNewMessage :: "jsstring \<Rightarrow> nat \<Rightarrow> message_data \<Rightarrow> whatsapp_core \<Rightarrow> whatsapp_core" where
  "handleNewMessage freshId now d s =
     (let message = newMessage freshId now d;
          s1 = s\<lparr>messages := (messages s)(msg_id message \<mapsto> message)\<rparr>;
          s2 = s1\<lparr>emitted := emitted s1 @ [EvMessageNew message]\<rparr>
      in case chatsGet s2 (msg_chat message) of
           None \<Rightarrow> s2
         | Some chat \<Rightarrow>
             (let chat' = chat\<lparr>chat_lastMessage := Some message,
                                chat_timestamp := msg_timestamp message,
                                chat_unreadCount := chat_unreadCount chat + 1\<rparr>;
                  s3 = s2\<lparr>chats := (chats s2)(the (msg_chat message) \<mapsto> chat')\<rparr>
              in s3\<lparr>emitted := emitted s3 @ [EvChatUpdate chat']\<rparr>))"

section \<open>The crypto module\<close>

text \<open>
  The module calls the packages \<open>tweetnacl\<close> and \<open>tweetnacl-util\<close> and the built-in
  \<open>JSON\<close> object, none of which is code of the repository. They are a parameter of
  the model: a record of the functions called. A function that can throw returns
  \<open>None\<close> when it throws; \<open>nacl.secretbox.open\<close> can also return \<open>null\<close>.
  \<open>box_publicKey\<close> is the public key \<open>nacl.box.keyPair()\<close> derives from the secret
  key it draws.
\<close>

datatype open_result = OpenThrows | OpenNull | Opened bytes

record nacl_lib =
  decodeBase64 :: "jsstring \<Rightarrow> bytes option"
  encodeBase64 :: "bytes \<Rightarrow> jsstring"
  decodeUTF8 :: "jsstring \<Rightarrow> bytes option"
  encodeUTF8 :: "bytes \<Rightarrow> jsstring option"
  box_publicKey :: "bytes \<Rightarrow> bytes"
  box_before :: "bytes \<Rightarrow> bytes \<Rightarrow> bytes option"
  secretbox :: "bytes \<Rightarrow> bytes \<Rightarrow> bytes \<Rightarrow> bytes option"
  secretbox_open :: "bytes \<Rightarrow> bytes \<Rightarrow> bytes \<Rightarrow> open_result"
  jsonStringify :: "jsval \<Rightarrow> jsstring"
  jsonParse :: "jsstring \<Rightarrow> jsval option"

datatype crypto_error =
    LibraryError     \<comment> \<open>an exception thrown inside a library call\<close>
  | FailedToDecrypt  \<comment> \<open>\<open>Error('Failed to decrypt message')\<close>\<close>

text \<open>\<open>generateKeyPair\<close>; \<open>sk\<close> is the secret key the library draws.\<close>

definition generateKeyPair :: "nacl_lib \<Rightarrow> bytes \<Rightarrow> keypair" where
  "generateKeyPair L sk =
     \<lparr>kp_privateKey = encodeBase64 L sk, kp_publicKey = encodeBase64 L (box_publicKey L sk)\<rparr>"

definition createSharedSecret :: "nacl_lib \<Rightarrow> jsstring \<Rightarrow> jsstring \<Rightarrow> bytes option" where
  "createSharedSecret L privateKey publicKey =
     (case decodeBase64 L privateKey of
        None \<Rightarrow> None
      | Some decodedPrivateKey \<Rightarrow>
          (case decodeBase64 L publicKey of
             None \<Rightarrow> None
           | Some decodedPublicKey \<Rightarrow> box_before L decodedPublicKey decodedPrivateKey))"

text \<open>The \<open>if (publicKey)\<close> block that \<open>encrypt\<close> and \<open>decrypt\<close> share.\<close>

definition sharedSecretFor :: "nacl_lib \<Rightarrow> jsstring \<Rightarrow> jsstring option \<Rightarrow> bytes option" where
  "sharedSecretFor L privateKey publicKey =
     (if truthyStr publicKey then createSharedSecret L privateKey (the publicKey)
      else decodeBase64 L privateKey)"

text \<open>
  \<open>typeof message === 'object'\<close> holds for \<open>null\<close>, arrays, buffers and objects. The
  text that is encrypted is the JSON text of such a value, or the message itself. A
  message that is neither an object nor a string makes \<open>decodeUTF8\<close> throw.
\<close>

fun typeofObject :: "jsval \<Rightarrow> bool" where
  "typeofObject JNull = True"
| "typeofObject (JBuffer d) = True"
| "typeofObject (JArray xs) = True"
| "typeofObject (JObject es) = True"
| "typeofObject _ = False"

definition messageBytes :: "nacl_lib \<Rightarrow> jsval \<Rightarrow> bytes option" where
  "messageBytes L message =
     (if typeofObject message then decodeUTF8 L (jsonStringify L message)
      else (case message of JString s \<Rightarrow> decodeUTF8 L s | _ \<Rightarrow> None))"

text \<open>\<open>encrypt\<close>; \<open>nonce\<close> is the value of \<open>nacl.randomBytes(24)\<close>.\<close>

definition encrypt ::
    "nacl_lib \<Rightarrow> jsval \<Rightarrow> jsstring \<Rightarrow> jsstring option \<Rightarrow> bytes \<Rightarrow> crypto_error + jsstring" where
  "encrypt L message privateKey publicKey nonce =
     (case messageBytes L message of
        None \<Rightarrow> Inl LibraryError
      | Some msgBytes \<Rightarrow>
          (case sharedSecretFor L privateKey publicKey of
             None \<Rightarrow> Inl LibraryError
           | Some sharedSecret \<Rightarrow>
               (case secretbox L msgBytes nonce sharedSecret of
                  None \<Rightarrow> Inl LibraryError
                | Some encryptedBytes \<Rightarrow> Inr (encodeBase64 L (nonce @ encryptedBytes)))))"

definition decrypt ::
    "nacl_lib \<Rightarrow> jsstring \<Rightarrow> jsstring \<Rightarrow> jsstring option \<Rightarrow> crypto_error + jsval" where
  "decrypt L encryptedB64 privateKey publicKey =
     (case decodeBase64 L encryptedB64 of
        None \<Rightarrow> Inl LibraryError
      | Some combined \<Rightarrow>
          (let nonce = take 24 combined;
               encryptedBytes = drop 24 combined
           in case sharedSecretFor L privateKey publicKey of
                None \<Rightarrow> Inl LibraryError
              | Some sharedSecret \<Rightarrow>
                  (case secretbox_open L encryptedBytes nonce sharedSecret of
                     OpenThrows \<Rightarrow> Inl LibraryError
                   | OpenNull \<Rightarrow> Inl FailedToDecrypt
                   | Opened decryptedBytes \<Rightarrow>
                       (case encodeUTF8 L decryptedBytes of
                          None \<Rightarrow> Inl LibraryError
                        | Some decryptedStr \<Rightarrow>
                            (case jsonParse L decryptedStr of
                               Some v \<Rightarrow> Inr v
                             | None \<Rightarrow> Inr (JString decryptedStr))))))"

text \<open>
  What the packages promise and the theorems below rely on: base64 decoding undoes
  base64 encoding, opening a box with the nonce and key it was made with gives the
  message, and \<open>encodeUTF8\<close> undoes \<open>decodeUTF8\<close>.
\<close>

definition nacl_laws :: "nacl_lib \<Rightarrow> bool" where
  "nacl_laws L \<longleftrightarrow>
     (\<forall>b. decodeBase64 L (encodeBase64 L b) = Some b)
     \<and> (\<forall>m n k c. secretbox L m n k = Some c \<longrightarrow> secretbox_open L c n k = Opened m)
     \<and> (\<forall>s b. decodeUTF8 L s = Some b \<longrightarrow> encodeUTF8 L b = Some s)"

text \<open>
  A test double for the packages, used to run the model: strings of bytes for base64,
  ASCII for UTF-8, a box that puts the key in front of the message and opens only when
  it finds the key there, a key agreement by exclusive or, a JSON parser that knows
  \<open>null\<close>, \<open>true\<close>, \<open>false\<close> and the unsigned decimal integers and rejects every
  other text, and a JSON printer that prints \<open>null\<close> whatever the value (the runs below
  encrypt strings, which are not printed). It obeys \<open>nacl_laws\<close>; nothing else about
  the real packages is read off from it.
\<close>

definition digitsValue :: "jsstring \<Rightarrow> nat" where
  "digitsValue s = foldl (\<lambda>acc u. 10 * acc + (unat u - 48)) 0 s"

definition stub_jsonParse :: "jsstring \<Rightarrow> jsval option" where
  "stub_jsonParse s =
     (if s = js ''null'' then Some JNull
      else if s = js ''true'' then Some (JBool True)
      else if s = js ''false'' then Some (JBool False)
      else if s \<noteq> [] \<and> list_all isDigit s \<and> (hd s \<noteq> 48 \<or> length s = 1)
        then Some (JNumber (int (digitsValue s)))
      else None)"

definition stub_lib :: nacl_lib where
  "stub_lib =
     \<lparr>decodeBase64 = (\<lambda>s. Some (map ucast s)),
      encodeBase64 = map ucast,
      decodeUTF8 = (\<lambda>s. if list_all (\<lambda>u. unat u < 128) s then Some (map ucast s) else None),
      encodeUTF8 = (\<lambda>b. Some (map ucast b)),
      box_publicKey = (\<lambda>sk. sk),
      box_before = (\<lambda>pk sk. Some (map (\<lambda>(x, y). xor x y) (zip pk sk))),
      secretbox = (\<lambda>m n k. if length k = 32 \<and> length n = 24 then Some (k @ m) else None),
      secretbox_open = (\<lambda>c n k.
         if length k \<noteq> 32 \<or> length n \<noteq> 24 then OpenThrows
         else if take 32 c = k then Opened (drop 32 c) else OpenNull),
      jsonStringify = (\<lambda>v. js ''null''),
      jsonParse = stub_jsonParse\<rparr>"

section \<open>Sample values\<close>

text \<open>Concrete states and inputs on which the properties below are run.\<close>

abbreviation sample_chat :: wa_chat where
  "sample_chat \<equiv>
     \<lparr>chat_id = js ''c@c.us'', chat_name = js ''Chat'', chat_type = js ''dm'',
      chat_timestamp = 1, chat_unreadCount = 0, chat_lastMessage = None,
      chat_participants = None, chat_admins = None, chat_description = None,
      chat_archived = False, chat_pinned = False, chat_muted = False\<rparr>"

abbreviation sample_core :: whatsapp_core where
  "sample_core \<equiv>
     \<lparr>retryCount = 3, retryDelay = 5000, sessionPath = None,
      credentials = Some \<lparr>cr_clientId = js ''CLIENT'', cr_privateKey = [9],
        cr_publicKey = [1, 2, 3], cr_serverToken = [], cr_clientToken = [], cr_encKey = [],
        cr_macKey = [], cr_wid = []\<rparr>,
      chats = [js ''c@c.us'' \<mapsto> sample_chat], messages = Map.empty, isConnected = False,
      reconnectCount = 0, qrData = None, qrRefreshInterval = None, scheduled = [],
      written = [], emitted = []\<rparr>"

abbreviation sample_message_data :: message_data where
  "sample_message_data \<equiv>
     \<lparr>d_id = Some (js ''m1''), d_timestamp = Some 5, d_from = Some (js ''c@c.us''),
      d_chat = None, d_sender = None, d_type = None, d_content = None,
      d_text = Some (js ''hi'')\<rparr>"

abbreviation sample_qr_authenticator :: qr_authenticator where
  "sample_qr_authenticator \<equiv>
     \<lparr>qa_clientId = js ''CLIENT'',
      qa_keypair = \<lparr>kp_privateKey = js ''PRIV'', kp_publicKey = js ''AQID''\<rparr>,
      qa_qrTimeout = 60000, qa_qrRefreshInterval = 20000, qa_qrTimer = None,
      qa_qrRefreshTimer = None, qa_qrData = None, qa_emitted = []\<rparr>"


abbreviation sample_key :: jsstring where
  "sample_key \<equiv> js ''KKKKKKKKKKKKKKKKKKKKKKKKKKKKKKKK''"

abbreviation other_key :: jsstring where
  "other_key \<equiv> js ''XKKKKKKKKKKKKKKKKKKKKKKKKKKKKKKK''"

abbreviation sample_nonce :: bytes where
  "sample_nonce \<equiv>
     [0, 1, 2, 3, 4, 5, 6, 7, 8, 9, 10, 11, 12, 13, 14, 15, 16, 17, 18, 19, 20, 21, 22, 23]"

text \<open>
  What \<open>encrypt\<close> returns under the test double for the messages \<open>123\<close> and \<open>hello\<close>
  with \<open>sample_key\<close> and \<open>sample_nonce\<close>: the nonce, the key, the message.
\<close>

abbreviation sample_box_123 :: jsstring where
  "sample_box_123 \<equiv>
     [0, 1, 2, 3, 4, 5, 6, 7, 8, 9, 10, 11, 12, 13, 14, 15, 16, 17, 18, 19, 20, 21, 22, 23,
      75, 75, 75, 75, 75, 75, 75, 75, 75, 75, 75, 75, 75, 75, 75, 75, 75, 75, 75, 75, 75,
      75, 75, 75, 75, 75, 75, 75, 75, 75, 75, 75, 49, 50, 51]"

abbreviation sample_box_hello :: jsstring where
  "sample_box_hello \<equiv>
     [0, 1, 2, 3, 4, 5, 6, 7, 8, 9, 10, 11, 12, 13, 14, 15, 16, 17, 18, 19, 20, 21, 22, 23,
      75, 75, 75, 75, 75, 75, 75, 75, 75, 75, 75, 75, 75, 75, 75, 75, 75, 75, 75, 75, 75,
      75, 75, 75, 75, 75, 75, 75, 75, 75, 75, 75, 104, 101, 108, 108, 111]"

section \<open>Properties of the encoder\<close>

subsection \<open>Token lookup\<close>

lemma indexOf_ge: "- 1 \<le> indexOf xs x"
  by (induction xs) (simp_all add: Let_def)

lemma indexOf_neg_iff: "indexOf xs x < 0 \<longleftrightarrow> x \<notin> set xs"
  by (induction xs) (auto simp: Let_def)

lemma indexOf_nth:
  "0 \<le> indexOf xs x \<Longrightarrow> nat (indexOf xs x) < length xs \<and> xs ! nat (indexOf xs x) = x"
proof (induction xs)
  case Nil
  then show ?case by simp
next
  case (Cons y ys)
  show ?case
  proof (cases "y = x")
    case True
    then show ?thesis by simp
  next
    case False
    with Cons.prems have nonneg: "0 \<le> indexOf ys x"
      by (simp add: Let_def split: if_splits)
    have "nat (indexOf ys x + 1) = Suc (nat (indexOf ys x))"
      using nonneg by simp
    with Cons.IH [OF nonneg] False nonneg show ?thesis
      by (simp add: Let_def)
  qed
qed

lemma indexOf_first: "0 \<le> indexOf xs x \<Longrightarrow> j < nat (indexOf xs x) \<Longrightarrow> xs ! j \<noteq> x"
proof (induction xs arbitrary: j)
  case Nil
  then show ?case by simp
next
  case (Cons y ys)
  show ?case
  proof (cases "y = x")
    case True
    with Cons.prems show ?thesis by simp
  next
    case False
    with Cons.prems have nonneg: "0 \<le> indexOf ys x"
      by (simp add: Let_def split: if_splits)
    show ?thesis
    proof (cases j)
      case 0
      with False show ?thesis by simp
    next
      case (Suc j')
      with Cons.prems False nonneg have "j' < nat (indexOf ys x)"
        by (simp add: Let_def)
      from Cons.IH [OF nonneg this] Suc show ?thesis by simp
    qed
  qed
qed

lemma indexOf_take: "(0 \<le> indexOf xs x \<and> indexOf xs x < int n) \<longleftrightarrow> x \<in> set (take n xs)"
proof (induction xs arbitrary: n)
  case Nil
  then show ?case by simp
next
  case (Cons y ys)
  show ?case
  proof (cases n)
    case 0
    then show ?thesis using indexOf_ge [of "y # ys" x] by auto
  next
    case (Suc m)
    show ?thesis
    proof (cases "y = x")
      case True
      then show ?thesis using Suc by simp
    next
      case False
      have "(0 \<le> indexOf (y # ys) x \<and> indexOf (y # ys) x < int n)
            \<longleftrightarrow> (0 \<le> indexOf ys x \<and> indexOf ys x < int m)"
        using False Suc by (auto simp: Let_def)
      then show ?thesis using Cons.IH [of m] False Suc by simp
    qed
  qed
qed

lemma length_WA_TOKENS: "length WA_TOKENS = 148"
  by (simp add: WA_TOKENS_def)

lemma utf8_ascii: "\<forall>u \<in> set s. unat u < 128 \<Longrightarrow> utf8 s = map ucast s"
proof (induction s)
  case Nil
  then show ?case by simp
next
  case (Cons u us)
  then have small: "unat u < 128" by simp
  then have "\<not> isHighSurrogate u" "\<not> isLowSurrogate u"
    by (simp_all add: isHighSurrogate_def isLowSurrogate_def)
  moreover have "utf8_codepoint (unat u) = [ucast u]"
    using small by (simp add: utf8_codepoint_def byte_def)
  ultimately show ?case using Cons by simp
qed

text \<open>
  Claim C10. The empty string is entry 0 of the token dictionary, so it is encoded as
  the single byte 0; \<open>null\<close> and the empty list are encoded as the single byte 0 as
  well (the \<open>LIST_EMPTY\<close> tag). The three values have the same encoding.
\<close>

theorem empty_string_null_empty_list_collide:
  "WA_TOKENS ! 0 = js [] \<and> indexOf WA_TOKENS (js []) = 0
   \<and> serializeString (js []) = [0]
   \<and> serializeItem toStr (JString (js [])) = [0]
   \<and> serializeItem toStr JNull = [0]
   \<and> serializeList toStr [] = [0]
   \<and> serializeItem toStr (JArray []) = [0]"
  by (simp add: serializeString_def WA_TOKENS_def js_def byte_def LIST_EMPTY_def)

text \<open>
  Claim C2. A string that equals a dictionary entry at an index below 236 is encoded as
  one byte, the first index holding it. Any other string is encoded as its UTF-8 bytes
  behind a length prefix: the tag \<open>BINARY_8\<close> and one length byte when there are fewer
  than 256 bytes, the tag \<open>BINARY_20\<close> and three length bytes (most significant first)
  otherwise.
\<close>

theorem serializeString_policy:
  "(s \<in> set (take 236 WA_TOKENS) \<longrightarrow>
      (\<exists>i < 236. i < length WA_TOKENS \<and> WA_TOKENS ! i = s \<and> (\<forall>j < i. WA_TOKENS ! j \<noteq> s)
                \<and> serializeString s = [byte i]))
   \<and> (s \<notin> set (take 236 WA_TOKENS) \<and> length (utf8 s) < 256 \<longrightarrow>
        serializeString s = [byte BINARY_8, byte (length (utf8 s))] @ utf8 s)
   \<and> (s \<notin> set (take 236 WA_TOKENS) \<and> 256 \<le> length (utf8 s) \<longrightarrow>
        serializeString s =
          [byte BINARY_20, byte ((length (utf8 s) div 65536) mod 256),
           byte ((length (utf8 s) div 256) mod 256), byte (length (utf8 s) mod 256)] @ utf8 s)"
proof (cases "s \<in> set (take 236 WA_TOKENS)")
  case True
  then have idx: "0 \<le> indexOf WA_TOKENS s" "indexOf WA_TOKENS s < 236"
    using indexOf_take [of WA_TOKENS s 236] by simp_all
  let ?i = "nat (indexOf WA_TOKENS s)"
  have "?i < 236" using idx by simp
  moreover have "?i < length WA_TOKENS \<and> WA_TOKENS ! ?i = s"
    using indexOf_nth [OF idx(1)] .
  moreover have "\<forall>j < ?i. WA_TOKENS ! j \<noteq> s"
    using indexOf_first [OF idx(1)] by blast
  moreover have "serializeString s = [byte ?i]"
    using idx by (simp add: serializeString_def)
  ultimately show ?thesis using True by blast
next
  case False
  then have "\<not> (0 \<le> indexOf WA_TOKENS s \<and> indexOf WA_TOKENS s < 236)"
    using indexOf_take [of WA_TOKENS s 236] by simp
  then have "serializeString s =
      (if length (utf8 s) < 256 then [byte BINARY_8, byte (length (utf8 s))] @ utf8 s
       else [byte BINARY_20] @
            [byte ((length (utf8 s) div 65536) mod 256),
             byte ((length (utf8 s) div 256) mod 256), byte (length (utf8 s) mod 256)] @ utf8 s)"
    unfolding serializeString_def Let_def by (simp only: if_False)
  then show ?thesis using False by auto
qed

theorem serializeString_policy_witness:
  "js ''admin'' \<in> set (take 236 WA_TOKENS)
   \<and> serializeString (js ''admin'') = [109]
   \<and> [0x68, 0xE9] \<notin> set (take 236 WA_TOKENS) \<and> length (utf8 [0x68, 0xE9]) < 256
   \<and> serializeString [0x68, 0xE9] = [252, 3, 0x68, 0xC3, 0xA9]
   \<and> replicate 256 0x61 \<notin> set (take 236 WA_TOKENS) \<and> 256 \<le> length (utf8 (replicate 256 0x61))
   \<and> serializeString (replicate 256 0x61) = [253, 0, 1, 0] @ utf8 (replicate 256 0x61)"
proof -
  have tk: "take 236 WA_TOKENS = WA_TOKENS"
    by (simp add: length_WA_TOKENS)
  have a1: "js ''admin'' \<in> set (take 236 WA_TOKENS)"
    unfolding tk by (simp add: WA_TOKENS_def js_def)
  have a2: "indexOf WA_TOKENS (js ''admin'') = 109"
    by (simp add: WA_TOKENS_def js_def)
  have b1: "[0x68, 0xE9] \<notin> set (take 236 WA_TOKENS)"
    unfolding tk by (simp add: WA_TOKENS_def js_def)
  have b2: "utf8 [0x68, 0xE9] = [0x68, 0xC3, 0xA9]"
    by (simp add: utf8_codepoint_def isHighSurrogate_def isLowSurrogate_def byte_def)
  have c1: "replicate 256 (0x61 :: 16 word) \<notin> set (take 236 WA_TOKENS)"
  proof
    assume "replicate 256 (0x61 :: 16 word) \<in> set (take 236 WA_TOKENS)"
    then have "\<exists>t \<in> set WA_TOKENS. length t = 256"
      unfolding tk by (metis length_replicate)
    then show False by (simp add: WA_TOKENS_def js_def)
  qed
  have c2: "length (utf8 (replicate 256 (0x61 :: 16 word))) = 256"
    by (subst utf8_ascii) simp_all
  from serializeString_policy [of "js ''admin''"] a1
  obtain i where i: "i < 236" "WA_TOKENS ! i = js ''admin''"
      "\<forall>j < i. WA_TOKENS ! j \<noteq> js ''admin''" "serializeString (js ''admin'') = [byte i]"
    by blast
  have "i = 109"
  proof -
    have at: "WA_TOKENS ! 109 = js ''admin''" by (simp add: WA_TOKENS_def js_def)
    have first: "\<forall>j < 109. WA_TOKENS ! j \<noteq> js ''admin''"
      using indexOf_first [of WA_TOKENS "js ''admin''"] a2 by simp
    show ?thesis
    proof (rule ccontr)
      assume "i \<noteq> 109"
      then consider "i < 109" | "109 < i" by linarith
      then show False
      proof cases
        case 1
        with first i(2) show False by blast
      next
        case 2
        with i(3) at show False by blast
      qed
    qed
  qed
  with i(4) have r1: "serializeString (js ''admin'') = [109]"
    by (simp add: byte_def)
  have r2: "serializeString [0x68, 0xE9] = [252, 3, 0x68, 0xC3, 0xA9]"
    using serializeString_policy [of "[0x68, 0xE9]"] b1 b2 by (simp add: byte_def BINARY_8_def)
  have r3: "serializeString (replicate 256 0x61) = [253, 0, 1, 0] @ utf8 (replicate 256 0x61)"
    using serializeString_policy [of "replicate 256 0x61"] c1 c2
    by (simp add: byte_def BINARY_20_def)
  show ?thesis using a1 b1 b2 c1 c2 r1 r2 r3 by simp
qed

subsection \<open>What the encoder keeps and what the parser returns\<close>

lemma length_pairs: "length (pairs es) = 2 * length es"
  by (induction es rule: pairs.induct) simp_all

lemma serializeItem_asStrings:
  "serializeItem toStr (asStrings toStr v) = serializeItem toStr v"
proof (induction v)
  case (JArray xs)
  have "concat (map (serializeItem toStr) (map (asStrings toStr) xs))
        = concat (map (serializeItem toStr) xs)"
    using JArray by (induction xs) simp_all
  then show ?case by simp
next
  case (JObject es)
  have IH: "\<forall>e \<in> set es. serializeItem toStr (asStrings toStr (snd e))
                           = serializeItem toStr (snd e)"
    using JObject by fastforce
  from IH have "concat (map (serializeItem toStr)
                   (pairs (map (\<lambda>(k, v). (k, asStrings toStr v)) es)))
        = concat (map (serializeItem toStr) (pairs es))"
    by (induction es rule: pairs.induct) simp_all
  then show ?case by (simp add: length_pairs)
qed simp_all

lemma parseBinaryMessage_shape:
  "\<exists>t d. parseBinaryMessage data = parsed t d
         \<and> (t = ''qr_response'' \<or> t = ''auth_success'' \<or> t = ''unknown'')"
  unfolding parseBinaryMessage_def Let_def
  by (cases "if 10 < length data \<and> hd data = byte LIST_8 then refMatch (toBinaryString data)
             else None") auto

text \<open>
  The encoder alone already rules a faithful decoder out: two values that differ after
  the boolean and number asymmetry have the same bytes.
\<close>

lemma no_decoder_inverts_serializeItem:
  "\<not> (\<exists>decode. \<forall>v. decode (serializeItem toStr v) = asStrings toStr v)"
proof
  assume "\<exists>decode. \<forall>v. decode (serializeItem toStr v) = asStrings toStr v"
  then obtain decode where d: "\<forall>v. decode (serializeItem toStr v) = asStrings toStr v" ..
  have "serializeItem toStr JNull = serializeItem toStr (JArray [])"
    by (simp add: LIST_EMPTY_def)
  then have "decode (serializeItem toStr JNull) = decode (serializeItem toStr (JArray []))"
    by simp
  with d have "asStrings toStr JNull = asStrings toStr (JArray [])" by metis
  then show False by simp
qed

text \<open>
  Claim C1, as the code has it. Whatever string \<open>toString\<close> gives for a number, the
  encoder writes a boolean or a number exactly as it writes that string form, and an
  object exactly as it writes the list of its keys and values in turn, so the encoding
  of a value is the encoding of the value with booleans and numbers turned into
  strings. The parser does not rebuild the value: on every encoded frame it returns a
  record \<open>{ type, data }\<close> whose type is \<open>qr_response\<close>, \<open>auth_success\<close> or \<open>unknown\<close>.
\<close>

theorem encoder_asymmetry_parser_classifies:
  "serializeItem toStr v = serializeItem toStr (asStrings toStr v)
   \<and> serializeItem toStr (JBool b) = serializeItem toStr (JString (boolToString b))
   \<and> serializeItem toStr (JNumber n) = serializeItem toStr (JString (toStr n))
   \<and> serializeItem toStr (JObject es) = serializeItem toStr (JArray (pairs es))
   \<and> (\<exists>t d. parseBinaryMessage (serializeItem toStr v) = (parsed t d :: 'n jsvalue)
         \<and> (t = ''qr_response'' \<or> t = ''auth_success'' \<or> t = ''unknown''))"
  using serializeItem_asStrings [of toStr v]
    parseBinaryMessage_shape [of "serializeItem toStr v"]
  by simp

theorem encoder_asymmetry_parser_classifies_witness:
  "serializeItem decimalString (JArray [JBool True, JNumber 42])
     = serializeItem decimalString (JArray [JString (js ''true''), JString (js ''42'')])
   \<and> serializeItem decimalString (JArray [JBool True, JNumber 42])
     = [248, 2, 98, 252, 2, 52, 50]
   \<and> parseBinaryMessage (serializeItem decimalString (JArray [JBool True, JNumber 42]))
     = (parsed ''unknown'' [(js ''raw'', JString (js ''f80262fc023432''))] :: jsval)"
proof -
  have s: "asStrings decimalString (JArray [JBool True, JNumber 42])
           = JArray [JString (js ''true''), JString (js ''42'')]"
    by (simp add: boolToString_def decimalString_def js_def)
  have e: "serializeItem decimalString (JArray [JString (js ''true''), JString (js ''42'')])
           = [248, 2, 98, 252, 2, 52, 50]"
    by (simp add: serializeString_def WA_TOKENS_def js_def byte_def LIST_8_def BINARY_8_def
        utf8_codepoint_def isHighSurrogate_def isLowSurrogate_def)
  have p: "parseBinaryMessage [248, 2, 98, 252, 2, 52, 50]
           = (parsed ''unknown'' [(js ''raw'', JString (js ''f80262fc023432''))] :: jsval)"
    by (simp add: parseBinaryMessage_def toBinaryString_def toHex_def hexDigit_def js_def)
  from encoder_asymmetry_parser_classifies
      [of decimalString "JArray [JBool True, JNumber 42]", where ?'n = int] s e p
  show ?thesis by simp
qed

text \<open>
  Claim C1, as the specification states it, fails on \<open>null\<close>: the frame of \<open>null\<close> is the
  byte 0, and the parser answers with the record of type \<open>unknown\<close> that holds the
  hexadecimal dump \<open>00\<close>, not with \<open>null\<close>. It fails the same way on a string.
\<close>

theorem encode_parse_roundtrip_counterexample:
  "parseBinaryMessage (serializeItem decimalString JNull)
     = (parsed ''unknown'' [(js ''raw'', JString (js ''00''))] :: jsval)
   \<and> parseBinaryMessage (serializeItem decimalString JNull) \<noteq> asStrings decimalString JNull
   \<and> parseBinaryMessage (serializeItem decimalString (JString (js ''hello'')))
     \<noteq> asStrings decimalString (JString (js ''hello''))"
  by (simp add: parseBinaryMessage_def toBinaryString_def toHex_def hexDigit_def js_def
      parsed_def LIST_EMPTY_def byte_def serializeString_def WA_TOKENS_def BINARY_8_def
      utf8_codepoint_def isHighSurrogate_def isLowSurrogate_def)

section \<open>Properties of pairing-code authentication\<close>

lemma matchesPhonePattern_iff:
  "matchesPhonePattern s \<longleftrightarrow>
     (\<exists>ds. (s = ds \<or> s = 0x2B # ds) \<and> 10 \<le> length ds \<and> length ds \<le> 15 \<and> (\<forall>d \<in> set ds. isDigit d))"
proof
  assume m: "matchesPhonePattern s"
  show "\<exists>ds. (s = ds \<or> s = 0x2B # ds) \<and> 10 \<le> length ds \<and> length ds \<le> 15 \<and> (\<forall>d \<in> set ds. isDigit d)"
  proof (cases s)
    case Nil
    with m show ?thesis by (simp add: matchesPhonePattern_def)
  next
    case (Cons c cs)
    show ?thesis
    proof (cases "c = 0x2B")
      case True
      with m Cons have "10 \<le> length cs \<and> length cs \<le> 15 \<and> (\<forall>d \<in> set cs. isDigit d)"
        by (simp add: matchesPhonePattern_def list_all_iff)
      with Cons True show ?thesis by blast
    next
      case False
      with m Cons have "10 \<le> length s \<and> length s \<le> 15 \<and> (\<forall>d \<in> set s. isDigit d)"
        by (simp add: matchesPhonePattern_def list_all_iff)
      then show ?thesis by blast
    qed
  qed
next
  assume "\<exists>ds. (s = ds \<or> s = 0x2B # ds) \<and> 10 \<le> length ds \<and> length ds \<le> 15 \<and> (\<forall>d \<in> set ds. isDigit d)"
  then obtain ds where ds: "s = ds \<or> s = 0x2B # ds" "10 \<le> length ds" "length ds \<le> 15"
      "\<forall>d \<in> set ds. isDigit d"
    by blast
  have plus: "\<not> isDigit 0x2B" by (simp add: isDigit_def)
  from ds(1) show "matchesPhonePattern s"
  proof
    assume "s = ds"
    moreover from this ds(2) obtain c cs where "ds = c # cs" by (cases ds) auto
    moreover from this ds(4) plus have "c \<noteq> 0x2B" by auto
    ultimately show ?thesis using ds(2,3,4)
      by (simp add: matchesPhonePattern_def list_all_iff)
  next
    assume "s = 0x2B # ds"
    then show ?thesis using ds(2,3,4)
      by (simp add: matchesPhonePattern_def list_all_iff)
  qed
qed

text \<open>
  Claim C5. A phone number that is not ten to fifteen digits with an optional leading
  plus sign is rejected with the invalid-format error before anything is done: the
  authenticator is unchanged, so the stored phone number is the old one, no timer is
  armed and no event is emitted.
\<close>

theorem requestPairingCode_rejects_without_effects:
  assumes "\<not> (\<exists>ds. (p = ds \<or> p = 0x2B # ds) \<and> 10 \<le> length ds \<and> length ds \<le> 15
                 \<and> (\<forall>d \<in> set ds. isDigit d))"
  shows "requestPairingCode p a = (Inl InvalidPhoneNumberFormat, a)
         \<and> pa_phoneNumber (snd (requestPairingCode p a)) = pa_phoneNumber a
         \<and> pa_pairingTimer (snd (requestPairingCode p a)) = pa_pairingTimer a
         \<and> pa_emitted (snd (requestPairingCode p a)) = pa_emitted a"
proof -
  from assms have "\<not> matchesPhonePattern p"
    by (simp only: matchesPhonePattern_iff not_False_eq_True)
  then show ?thesis by (simp add: requestPairingCode_def)
qed

theorem requestPairingCode_rejects_without_effects_witness:
  "\<not> (\<exists>ds. (js ''12345'' = ds \<or> js ''12345'' = 0x2B # ds) \<and> 10 \<le> length ds \<and> length ds \<le> 15
           \<and> (\<forall>d \<in> set ds. isDigit d))
   \<and> requestPairingCode (js ''12345'')
       \<lparr>pa_clientId = js ''client'',
         pa_keypair = \<lparr>kp_privateKey = js ''priv'', kp_publicKey = js ''pub''\<rparr>,
         pa_pairingTimeout = 60000, pa_phoneNumber = None, pa_pairingTimer = None,
         pa_emitted = []\<rparr>
     = (Inl InvalidPhoneNumberFormat,
       \<lparr>pa_clientId = js ''client'',
         pa_keypair = \<lparr>kp_privateKey = js ''priv'', kp_publicKey = js ''pub''\<rparr>,
         pa_pairingTimeout = 60000, pa_phoneNumber = None, pa_pairingTimer = None,
         pa_emitted = []\<rparr>)"
proof -
  have "\<not> matchesPhonePattern (js ''12345'')"
    by (simp add: matchesPhonePattern_def js_def)
  then have h: "\<not> (\<exists>ds. (js ''12345'' = ds \<or> js ''12345'' = 0x2B # ds) \<and> 10 \<le> length ds
                \<and> length ds \<le> 15 \<and> (\<forall>d \<in> set ds. isDigit d))"
    by (simp only: matchesPhonePattern_iff not_False_eq_True)
  from requestPairingCode_rejects_without_effects [OF h] h show ?thesis by blast
qed

subsection \<open>The code of \<open>WhatsAppCore\<close>\<close>

lemma draw_index: "0 \<le> (r::real) \<Longrightarrow> r < 1 \<Longrightarrow> nat \<lfloor>r * 36\<rfloor> < 36"
proof -
  assume "0 \<le> r" "r < 1"
  then have "r * 36 < 36" by simp
  then have "\<lfloor>r * 36\<rfloor> < (36::int)" by (simp only: floor_less_iff of_int_numeral)
  then show ?thesis by linarith
qed

lemma length_pairingChars: "length pairingChars = 36"
  by (simp add: pairingChars_def js_def)

lemma pairingChars_class: "\<forall>c \<in> set pairingChars. isUpperOrDigit c"
  by (simp add: pairingChars_def js_def isUpperOrDigit_def)

lemma charAt_draw:
  assumes "0 \<le> r" "r < 1"
  shows "\<exists>c. charAt pairingChars (nat \<lfloor>r * real (length pairingChars)\<rfloor>) = [c] \<and> isUpperOrDigit c"
proof -
  let ?i = "nat \<lfloor>r * 36\<rfloor>"
  have "?i < length pairingChars" using draw_index [OF assms] by (simp add: length_pairingChars)
  then have "charAt pairingChars ?i = [pairingChars ! ?i]" "pairingChars ! ?i \<in> set pairingChars"
    by (simp_all add: charAt_def)
  then show ?thesis using pairingChars_class by (simp add: length_pairingChars)
qed

lemma generatePairingCode_shape:
  assumes "\<forall>i < 8. 0 \<le> rnd i \<and> rnd i < 1"
  shows "length (generatePairingCode rnd) = 8 \<and> list_all isUpperOrDigit (generatePairingCode rnd)"
proof -
  have "\<forall>i < 8. \<exists>c. charAt pairingChars (nat \<lfloor>rnd i * real (length pairingChars)\<rfloor>) = [c] \<and> isUpperOrDigit c"
    using assms charAt_draw by blast
  then obtain c where c: "\<forall>i < 8. charAt pairingChars (nat \<lfloor>rnd i * real (length pairingChars)\<rfloor>) = [c i] \<and> isUpperOrDigit (c i)"
    by metis
  have "[0..<8] = [0, 1, 2, 3, 4, 5, 6, 7::nat]" by code_simp
  then have "generatePairingCode rnd = [c 0, c 1, c 2, c 3, c 4, c 5, c 6, c 7]"
    using c by (simp add: generatePairingCode_def)
  then show ?thesis using c by simp
qed

text \<open>
  Claim C4, as the code has it. A number that matches the pattern, such as
  \<open>+12345678900\<close>, is accepted: the stored number is its digits, the expiry timer is
  armed with the pairing timeout, and \<open>pairing_requested\<close> is emitted with the client
  id, the public key and the digits. \<open>requestPairingCode\<close> issues no code itself; the
  code generator of \<open>WhatsAppCore\<close> returns eight characters of \<open>A-Z0-9\<close>.
\<close>

theorem requestPairingCode_accepts_and_code_shape:
  assumes "matchesPhonePattern p" and "\<forall>i < 8. 0 \<le> rnd i \<and> rnd i < 1"
  shows "requestPairingCode p a =
           (Inr (), a\<lparr>pa_phoneNumber := Some (filter isDigit p),
                       pa_pairingTimer := Some (pa_pairingTimeout a),
                       pa_emitted := pa_emitted a @
                         [PairingRequested (pa_clientId a) (kp_publicKey (pa_keypair a))
                            (filter isDigit p)]\<rparr>)
         \<and> length (generatePairingCode rnd) = 8
         \<and> list_all isUpperOrDigit (generatePairingCode rnd)"
proof -
  from assms(1) have "p \<noteq> []" by (auto simp: matchesPhonePattern_def)
  with assms(1) have "requestPairingCode p a =
           (Inr (), a\<lparr>pa_phoneNumber := Some (filter isDigit p),
                       pa_pairingTimer := Some (pa_pairingTimeout a),
                       pa_emitted := pa_emitted a @
                         [PairingRequested (pa_clientId a) (kp_publicKey (pa_keypair a))
                            (filter isDigit p)]\<rparr>)"
    by (cases "pa_pairingTimer a") (simp_all add: requestPairingCode_def pa_clearTimers_def)
  with generatePairingCode_shape [OF assms(2)] show ?thesis by simp
qed

theorem requestPairingCode_accepts_and_code_shape_witness:
  "matchesPhonePattern (js ''+12345678900'') \<and> (0 :: real) \<le> 1 / 2 \<and> (1 / 2 :: real) < 1
   \<and> requestPairingCode (js ''+12345678900'')
       \<lparr>pa_clientId = js ''client'',
         pa_keypair = \<lparr>kp_privateKey = js ''priv'', kp_publicKey = js ''pub''\<rparr>,
         pa_pairingTimeout = 60000, pa_phoneNumber = None, pa_pairingTimer = None,
         pa_emitted = []\<rparr>
     = (Inr (),
       \<lparr>pa_clientId = js ''client'',
         pa_keypair = \<lparr>kp_privateKey = js ''priv'', kp_publicKey = js ''pub''\<rparr>,
         pa_pairingTimeout = 60000, pa_phoneNumber = Some (js ''12345678900''),
         pa_pairingTimer = Some 60000,
         pa_emitted = [PairingRequested (js ''client'') (js ''pub'') (js ''12345678900'')]\<rparr>)
   \<and> length (generatePairingCode (\<lambda>i. 1 / 2)) = 8
   \<and> list_all isUpperOrDigit (generatePairingCode (\<lambda>i. 1 / 2))"
proof -
  have m: "matchesPhonePattern (js ''+12345678900'')"
    by (simp add: matchesPhonePattern_def js_def isDigit_def)
  have r: "\<forall>i < 8. 0 \<le> (\<lambda>i::nat. 1 / 2 :: real) i \<and> (\<lambda>i::nat. 1 / 2 :: real) i < 1"
    by simp
  have f: "filter isDigit (js ''+12345678900'') = js ''12345678900''"
    by (simp add: js_def isDigit_def)
  from requestPairingCode_accepts_and_code_shape [OF m r,
      of "\<lparr>pa_clientId = js ''client'',
         pa_keypair = \<lparr>kp_privateKey = js ''priv'', kp_publicKey = js ''pub''\<rparr>,
         pa_pairingTimeout = 60000, pa_phoneNumber = None, pa_pairingTimer = None,
         pa_emitted = []\<rparr>"]
    m f show ?thesis by simp
qed

text \<open>
  Claim C4, as the specification states it, fails: \<open>+1 234-567-8900\<close> holds spaces and
  a hyphen, the pattern does not match, and the request is rejected with the
  invalid-format error; nothing is stored or emitted.
\<close>

theorem formatted_phone_number_counterexample:
  "requestPairingCode (js ''+1 234-567-8900'')
       \<lparr>pa_clientId = js ''client'',
         pa_keypair = \<lparr>kp_privateKey = js ''priv'', kp_publicKey = js ''pub''\<rparr>,
         pa_pairingTimeout = 60000, pa_phoneNumber = None, pa_pairingTimer = None,
         pa_emitted = []\<rparr>
     = (Inl InvalidPhoneNumberFormat,
       \<lparr>pa_clientId = js ''client'',
         pa_keypair = \<lparr>kp_privateKey = js ''priv'', kp_publicKey = js ''pub''\<rparr>,
         pa_pairingTimeout = 60000, pa_phoneNumber = None, pa_pairingTimer = None,
         pa_emitted = []\<rparr>)"
  by (simp add: requestPairingCode_def matchesPhonePattern_def js_def isDigit_def)

section \<open>Properties of reconnection\<close>










text \<open>
  In \<open>WhatsAppCore\<close> a reconnect attempt that fails is reported twice, by the \<open>catch\<close> of
  \<open>connect()\<close> and by the close handler of the socket. With a retry count of 3, after
  the first close and a first failed attempt all three reconnects are armed; the
  \<open>catch\<close> of the second failed attempt then emits \<open>connection.failed\<close> while the
  third reconnect, armed with 15000, has not run yet.
\<close>

lemma connection_failed_while_attempt_armed:
  "scheduled (runTriggers [TransportClosed, ConnectFailed, TransportClosed] (onOpen sample_core))
     = [5000, 10000, 15000]
   \<and> scheduled (runTriggers [TransportClosed, ConnectFailed, TransportClosed, ConnectFailed]
        (onOpen sample_core)) = [5000, 10000, 15000]
   \<and> last (emitted (runTriggers [TransportClosed, ConnectFailed, TransportClosed, ConnectFailed]
        (onOpen sample_core))) = EvConnectionFailed"
  by (simp add: runTriggers_def onOpen_def onClose_def onConnectFailed_def
      handleReconnection_def Let_def)

section \<open>Properties of the QR string\<close>

lemma qa_clearTimers_keeps:
  "qa_clientId (qa_clearTimers a) = qa_clientId a
   \<and> qa_keypair (qa_clearTimers a) = qa_keypair a
   \<and> qa_emitted (qa_clearTimers a) = qa_emitted a"
  by (simp add: qa_clearTimers_def Let_def split: option.splits)

text \<open>
  Claim C8, as the code has it. Both clients join three fields with commas and escape
  nothing, and both emit the string with the \<open>qr\<close> event, but the order differs:
  \<open>QRAuthenticator.generateQR\<close> writes \<open>ref,clientId,publicKey\<close>, while
  \<open>WhatsAppCore.handleQRResponse\<close> writes \<open>ref,publicKey,clientId\<close> with the public key
  in base64.
\<close>

theorem qr_string_formats:
  "fst (generateQR ref a) = ref @ js '','' @ qa_clientId a @ js '','' @ kp_publicKey (qa_keypair a)
   \<and> qa_qrData (snd (generateQR ref a)) = Some (fst (generateQR ref a))
   \<and> qa_emitted (snd (generateQR ref a)) = qa_emitted a @ [QrEvent (fst (generateQR ref a))]
   \<and> (credentials s = Some cr \<and> r \<noteq> [] \<longrightarrow>
        emitted (handleQRResponse (Some r) now s)
          = emitted s @ [EvQr (r @ js '','' @ base64 (cr_publicKey cr) @ js '','' @ cr_clientId cr)])"
proof -
  have "credentials s = Some cr \<and> r \<noteq> [] \<longrightarrow>
        emitted (handleQRResponse (Some r) now s)
          = emitted s @ [EvQr (r @ js '','' @ base64 (cr_publicKey cr) @ js '','' @ cr_clientId cr)]"
    by (auto simp: handleQRResponse_def truthyStr_def setupQRRefresh_def Let_def
        split: option.splits)
  then show ?thesis
    using qa_clearTimers_keeps [of a] by (simp add: generateQR_def Let_def)
qed

theorem qr_string_formats_witness:
  "fst (generateQR (js ''REF'') sample_qr_authenticator) = js ''REF,CLIENT,AQID''
   \<and> qa_emitted (snd (generateQR (js ''REF'') sample_qr_authenticator))
       = [QrEvent (js ''REF,CLIENT,AQID'')]
   \<and> credentials sample_core \<noteq> None \<and> js ''REF'' \<noteq> []
   \<and> emitted (handleQRResponse (Some (js ''REF'')) 0 sample_core) = [EvQr (js ''REF,AQID,CLIENT'')]"
proof -
  have b: "base64 [1, 2, 3] = js ''AQID''"
    by (simp add: b64_def base64Chars_def js_def)
  from qr_string_formats [of "js ''REF''" sample_qr_authenticator sample_core
      "the (credentials sample_core)" "js ''REF''" 0] b
  show ?thesis by (simp add: js_def)
qed

text \<open>
  Claim C8, as the specification states it, fails for \<open>WhatsAppCore\<close>: with the
  reference \<open>REF\<close>, the client id \<open>CLIENT\<close> and the public key bytes 1, 2, 3 (\<open>AQID\<close> in
  base64) the emitted QR string is \<open>REF,AQID,CLIENT\<close>, the public key before the
  client id.
\<close>

theorem qr_field_order_counterexample:
  "emitted (handleQRResponse (Some (js ''REF'')) 0 sample_core) = [EvQr (js ''REF,AQID,CLIENT'')]
   \<and> js ''REF,AQID,CLIENT'' \<noteq> js ''REF'' @ js '','' @ js ''CLIENT'' @ js '','' @ js ''AQID''"
  by (simp add: handleQRResponse_def truthyStr_def setupQRRefresh_def Let_def b64_def
      base64Chars_def js_def)

section \<open>Properties of the entity cache\<close>

lemma newMessage_determined:
  "truthyStr (d_id d) \<Longrightarrow> truthyNum (d_timestamp d) \<Longrightarrow> newMessage f2 n2 d = newMessage f1 n1 d"
  by (simp add: newMessage_def)

lemma handleNewMessage_unknown_chat:
  "chatsGet s (msg_chat (newMessage f n d)) = None \<Longrightarrow>
   handleNewMessage f n d s =
     s\<lparr>messages := (messages s)(msg_id (newMessage f n d) \<mapsto> newMessage f n d),
       emitted := emitted s @ [EvMessageNew (newMessage f n d)]\<rparr>"
  by (simp add: handleNewMessage_def Let_def chatsGet_def split: option.splits)

lemma handleNewMessage_known_chat:
  "chatsGet s (msg_chat (newMessage f n d)) = Some ch \<Longrightarrow>
   handleNewMessage f n d s =
     s\<lparr>messages := (messages s)(msg_id (newMessage f n d) \<mapsto> newMessage f n d),
       chats := (chats s)(the (msg_chat (newMessage f n d)) \<mapsto>
          ch\<lparr>chat_lastMessage := Some (newMessage f n d),
             chat_timestamp := msg_timestamp (newMessage f n d),
             chat_unreadCount := chat_unreadCount ch + 1\<rparr>),
       emitted := emitted s @ [EvMessageNew (newMessage f n d),
          EvChatUpdate (ch\<lparr>chat_lastMessage := Some (newMessage f n d),
             chat_timestamp := msg_timestamp (newMessage f n d),
             chat_unreadCount := chat_unreadCount ch + 1\<rparr>)]\<rparr>"
  by (simp add: handleNewMessage_def Let_def chatsGet_def split: option.splits)

text \<open>
  Claim C6, as the code has it. For an event that carries its id and its timestamp, a
  second application stores the same message under the same id, so the message map is
  the one after the first application. When the owning chat is not in the cache, the
  chats are untouched by either application (no placeholder chat is created). When it
  is in the cache, its last message and timestamp are set as by one application, but
  every application adds one to its unread count: two after the second.
\<close>

theorem handleNewMessage_twice:
  assumes "truthyStr (d_id d)" and "truthyNum (d_timestamp d)"
  shows "messages (handleNewMessage f2 n2 d (handleNewMessage f1 n1 d s))
           = messages (handleNewMessage f1 n1 d s)
         \<and> (chatsGet s (orStr (d_from d) (d_chat d)) = None \<longrightarrow>
              chats (handleNewMessage f2 n2 d (handleNewMessage f1 n1 d s)) = chats s
              \<and> chats (handleNewMessage f1 n1 d s) = chats s)
         \<and> (\<forall>c ch. orStr (d_from d) (d_chat d) = Some c \<and> chats s c = Some ch \<longrightarrow>
              chats (handleNewMessage f1 n1 d s) c =
                Some (ch\<lparr>chat_lastMessage := Some (newMessage f1 n1 d),
                         chat_timestamp := the (d_timestamp d),
                         chat_unreadCount := chat_unreadCount ch + 1\<rparr>)
              \<and> chats (handleNewMessage f2 n2 d (handleNewMessage f1 n1 d s)) c =
                Some (ch\<lparr>chat_lastMessage := Some (newMessage f1 n1 d),
                         chat_timestamp := the (d_timestamp d),
                         chat_unreadCount := chat_unreadCount ch + 2\<rparr>))"
proof -
  let ?m = "newMessage f1 n1 d"
  let ?s1 = "handleNewMessage f1 n1 d s"
  have same: "newMessage f2 n2 d = ?m"
    using assms by (rule newMessage_determined)
  have key: "msg_chat ?m = orStr (d_from d) (d_chat d)"
    by (simp add: newMessage_def)
  have ts: "msg_timestamp ?m = the (d_timestamp d)"
    using assms(2) by (simp add: newMessage_def)
  show ?thesis
  proof (cases "chatsGet s (orStr (d_from d) (d_chat d))")
    case None
    then have one: "?s1 = s\<lparr>messages := (messages s)(msg_id ?m \<mapsto> ?m),
                          emitted := emitted s @ [EvMessageNew ?m]\<rparr>"
      using handleNewMessage_unknown_chat [of s f1 n1 d] key by simp
    have "chatsGet ?s1 (msg_chat (newMessage f2 n2 d)) = None"
      using None one same key by (auto simp: chatsGet_def split: option.splits)
    from handleNewMessage_unknown_chat [OF this] one same None
    show ?thesis by (auto simp: chatsGet_def split: option.splits)
  next
    case (Some ch)
    then obtain c where c: "orStr (d_from d) (d_chat d) = Some c" "chats s c = Some ch"
      by (auto simp: chatsGet_def split: option.splits)
    let ?ch1 = "ch\<lparr>chat_lastMessage := Some ?m, chat_timestamp := msg_timestamp ?m,
                     chat_unreadCount := chat_unreadCount ch + 1\<rparr>"
    have one: "?s1 = s\<lparr>messages := (messages s)(msg_id ?m \<mapsto> ?m),
                        chats := (chats s)(c \<mapsto> ?ch1),
                        emitted := emitted s @ [EvMessageNew ?m, EvChatUpdate ?ch1]\<rparr>"
      using handleNewMessage_known_chat [of s f1 n1 d ch] Some key c by simp
    have "chatsGet ?s1 (msg_chat (newMessage f2 n2 d)) = Some ?ch1"
      using one same key c by (simp add: chatsGet_def)
    from handleNewMessage_known_chat [OF this] one same key c ts Some
    show ?thesis by (auto simp: chatsGet_def)
  qed
qed

theorem handleNewMessage_twice_witness:
  "truthyStr (d_id sample_message_data) \<and> truthyNum (d_timestamp sample_message_data)
   \<and> messages (handleNewMessage [] 0 sample_message_data
                 (handleNewMessage [] 0 sample_message_data sample_core))
       = messages (handleNewMessage [] 0 sample_message_data sample_core)
   \<and> map_option chat_unreadCount
        (chats (handleNewMessage [] 0 sample_message_data sample_core) (js ''c@c.us'')) = Some 1
   \<and> map_option chat_unreadCount
        (chats (handleNewMessage [] 0 sample_message_data
                 (handleNewMessage [] 0 sample_message_data sample_core)) (js ''c@c.us'')) = Some 2"
proof -
  have h1: "truthyStr (d_id sample_message_data)"
    by (simp add: truthyStr_def js_def)
  have h2: "truthyNum (d_timestamp sample_message_data)"
    by (simp add: truthyNum_def)
  have k: "orStr (d_from sample_message_data) (d_chat sample_message_data) = Some (js ''c@c.us'')"
    by (simp add: orStr_def truthyStr_def js_def)
  have c: "chats sample_core (js ''c@c.us'') = Some sample_chat"
    by simp
  from handleNewMessage_twice [OF h1 h2, of "[]" 0 "[]" 0 sample_core] k c h1 h2
  show ?thesis by simp
qed

text \<open>
  Claim C6, as the specification states it, fails: with the chat in the cache and no
  unread message, one application of the event leaves the unread count at 1 and two
  applications leave it at 2, so the two final states differ.
\<close>

theorem duplicate_message_counterexample:
  "map_option chat_unreadCount
        (chats (handleNewMessage [] 0 sample_message_data sample_core) (js ''c@c.us'')) = Some 1
   \<and> map_option chat_unreadCount
        (chats (handleNewMessage [] 0 sample_message_data
                 (handleNewMessage [] 0 sample_message_data sample_core)) (js ''c@c.us'')) = Some 2
   \<and> handleNewMessage [] 0 sample_message_data
        (handleNewMessage [] 0 sample_message_data sample_core)
       \<noteq> handleNewMessage [] 0 sample_message_data sample_core"
proof -
  have k: "msg_chat (newMessage [] 0 sample_message_data) = Some (js ''c@c.us'')"
    by (simp add: newMessage_def orStr_def truthyStr_def js_def)
  have one: "map_option chat_unreadCount
        (chats (handleNewMessage [] 0 sample_message_data sample_core) (js ''c@c.us'')) = Some 1"
    by (simp add: handleNewMessage_def Let_def chatsGet_def k)
  have two: "map_option chat_unreadCount
        (chats (handleNewMessage [] 0 sample_message_data
                 (handleNewMessage [] 0 sample_message_data sample_core)) (js ''c@c.us'')) = Some 2"
    by (simp add: handleNewMessage_def Let_def chatsGet_def k)
  from one two have "handleNewMessage [] 0 sample_message_data
        (handleNewMessage [] 0 sample_message_data sample_core)
       \<noteq> handleNewMessage [] 0 sample_message_data sample_core"
    by auto
  with one two show ?thesis by simp
qed

section \<open>Properties of the crypto module\<close>

lemma ucast_down_up: "ucast (ucast (b :: 8 word) :: 16 word) = b"
  by (rule ucast_up_ucast_id) (simp add: is_up)

lemma ucast_up_down: "unat (u :: 16 word) < 128 \<Longrightarrow> ucast (ucast u :: 8 word) = u"
proof -
  assume "unat u < 128"
  then have "take_bit 8 (unat u) = unat u"
    by (simp add: take_bit_nat_eq_self)
  then have "unat (ucast (ucast u :: 8 word) :: 16 word) = unat u"
    by (simp add: unsigned_ucast_eq unsigned_take_bit_eq)
  then show ?thesis by (simp only: word_unat_eq_iff)
qed

lemma stub_lib_laws: "nacl_laws stub_lib"
proof -
  have a: "\<forall>b. decodeBase64 stub_lib (encodeBase64 stub_lib b) = Some b"
    by (simp add: stub_lib_def ucast_down_up comp_def)
  have b: "\<forall>m n k c. secretbox stub_lib m n k = Some c \<longrightarrow> secretbox_open stub_lib c n k = Opened m"
    by (auto simp: stub_lib_def split: if_splits)
  have c: "\<forall>s b. decodeUTF8 stub_lib s = Some b \<longrightarrow> encodeUTF8 stub_lib b = Some s"
  proof (intro allI impI)
    fix s b
    assume "decodeUTF8 stub_lib s = Some b"
    then have s: "list_all (\<lambda>u. unat u < 128) s" "b = map ucast s"
      by (auto simp: stub_lib_def split: if_splits)
    then have "map ucast b = s"
      by (induction s arbitrary: b) (auto simp: ucast_up_down)
    then show "encodeUTF8 stub_lib b = Some s" by (simp add: stub_lib_def)
  qed
  from a b c show ?thesis unfolding nacl_laws_def by blast
qed


lemma decrypt_encrypt_general:
  assumes laws: "nacl_laws L" and n: "length nonce = 24"
    and e: "encrypt L message privateKey publicKey nonce = Inr c"
  shows "\<exists>str. (typeofObject message \<and> str = jsonStringify L message \<or> message = JString str)
     \<and> decrypt L c privateKey publicKey
        = Inr (case jsonParse L str of Some v \<Rightarrow> v | None \<Rightarrow> JString str)"
proof -
  from e obtain mb k eb where mb: "messageBytes L message = Some mb"
    and k: "sharedSecretFor L privateKey publicKey = Some k"
    and eb: "secretbox L mb nonce k = Some eb"
    and c: "c = encodeBase64 L (nonce @ eb)"
    by (auto simp: encrypt_def split: option.splits)
  from mb obtain str where str: "typeofObject message \<and> str = jsonStringify L message \<or> message = JString str"
    and dt: "decodeUTF8 L str = Some mb"
    by (cases message) (auto simp: messageBytes_def split: if_splits)
  from laws have dec: "decodeBase64 L c = Some (nonce @ eb)"
    unfolding c nacl_laws_def by blast
  from laws eb have op: "secretbox_open L eb nonce k = Opened mb"
    unfolding nacl_laws_def by blast
  from laws dt have enc: "encodeUTF8 L mb = Some str"
    unfolding nacl_laws_def by blast
  have "decrypt L c privateKey publicKey
        = Inr (case jsonParse L str of Some v \<Rightarrow> v | None \<Rightarrow> JString str)"
    using dec n k op enc by (simp add: decrypt_def split: option.splits)
  with str show ?thesis by blast
qed

text \<open>
  A string message that is itself a JSON text does not come back as that string: for
  every library that obeys the laws and whose JSON parser reads the text \<open>123\<close> as the
  number 123, decrypting the encryption of the string \<open>123\<close> gives the number.
\<close>

lemma decrypt_encrypt_numeric_text:
  assumes "nacl_laws L" and "length nonce = 24"
    and "jsonParse L (js ''123'') = Some (JNumber 123)"
    and "encrypt L (JString (js ''123'')) privateKey publicKey nonce = Inr c"
  shows "decrypt L c privateKey publicKey = Inr (JNumber 123)"
  using decrypt_encrypt_general [OF assms(1,2,4)] assms(3) by auto

lemma decrypt_fails_when_open_fails:
  assumes "decodeBase64 L c = Some combined"
    and "sharedSecretFor L privateKey publicKey = Some k"
    and "secretbox_open L (drop 24 combined) (take 24 combined) k = OpenNull"
  shows "decrypt L c privateKey publicKey = Inl FailedToDecrypt"
  using assms by (simp add: decrypt_def)

text \<open>
  Claim C3, as the code has it. For every library that obeys the laws and every 24-byte
  nonce: when \<open>encrypt\<close> returns a ciphertext, \<open>decrypt\<close> with the same keys returns
  the encrypted text parsed as JSON when it parses, and the text itself as a string
  otherwise, where the text is the JSON text of an object-typed message and the message
  itself for a string. And whenever \<open>nacl.secretbox.open\<close> returns \<open>null\<close> for the
  given keys, \<open>decrypt\<close> throws \<open>Failed to decrypt message\<close> and returns nothing.
\<close>

theorem decrypt_encrypt_reparses:
  assumes "nacl_laws L" and "length nonce = 24"
  shows "(encrypt L message privateKey publicKey nonce = Inr c \<longrightarrow>
            (\<exists>str. (typeofObject message \<and> str = jsonStringify L message \<or> message = JString str)
               \<and> decrypt L c privateKey publicKey
                  = Inr (case jsonParse L str of Some v \<Rightarrow> v | None \<Rightarrow> JString str)))
         \<and> (decodeBase64 L c' = Some combined
              \<and> sharedSecretFor L privateKey' publicKey' = Some k'
              \<and> secretbox_open L (drop 24 combined) (take 24 combined) k' = OpenNull \<longrightarrow>
            decrypt L c' privateKey' publicKey' = Inl FailedToDecrypt)"
  using decrypt_encrypt_general [OF assms] decrypt_fails_when_open_fails by blast

theorem decrypt_encrypt_reparses_witness:
  "nacl_laws stub_lib \<and> length sample_nonce = 24
   \<and> encrypt stub_lib (JString (js ''hello'')) sample_key None sample_nonce = Inr sample_box_hello
   \<and> decrypt stub_lib sample_box_hello sample_key None = Inr (JString (js ''hello''))
   \<and> decodeBase64 stub_lib sample_box_hello = Some (map ucast sample_box_hello)
   \<and> sharedSecretFor stub_lib other_key None = Some (map ucast other_key)
   \<and> secretbox_open stub_lib (drop 24 (map ucast sample_box_hello))
        (take 24 (map ucast sample_box_hello)) (map ucast other_key) = OpenNull
   \<and> decrypt stub_lib sample_box_hello other_key None = Inl FailedToDecrypt"
proof -
  have n: "length sample_nonce = 24" by simp
  have e: "encrypt stub_lib (JString (js ''hello'')) sample_key None sample_nonce
           = Inr sample_box_hello"
    by (simp add: encrypt_def messageBytes_def sharedSecretFor_def truthyStr_def stub_lib_def
        js_def)
  have p: "jsonParse stub_lib (js ''hello'') = None"
    by (simp add: stub_lib_def stub_jsonParse_def js_def isDigit_def)
  have d: "decodeBase64 stub_lib sample_box_hello = Some (map ucast sample_box_hello)"
    by (simp add: stub_lib_def)
  have k: "sharedSecretFor stub_lib other_key None = Some (map ucast other_key)"
    by (simp add: sharedSecretFor_def truthyStr_def stub_lib_def)
  have o: "secretbox_open stub_lib (drop 24 (map ucast sample_box_hello))
        (take 24 (map ucast sample_box_hello)) (map ucast other_key) = OpenNull"
    by (simp add: stub_lib_def js_def)
  from decrypt_encrypt_reparses [OF stub_lib_laws n, of "JString (js ''hello'')" sample_key None
      sample_box_hello sample_box_hello "map ucast sample_box_hello" other_key None
      "map ucast other_key"]
    e p d k o stub_lib_laws
  show ?thesis by simp
qed

text \<open>
  Claim C3, as the specification states it, fails on a string that is a JSON text:
  encrypting the string \<open>123\<close> and decrypting the result with the same key returns the
  number 123, because \<open>decrypt\<close> hands the decrypted text to \<open>JSON.parse\<close> first.
\<close>

theorem json_text_roundtrip_counterexample:
  "encrypt stub_lib (JString (js ''123'')) sample_key None sample_nonce = Inr sample_box_123
   \<and> decrypt stub_lib sample_box_123 sample_key None = Inr (JNumber 123)
   \<and> JNumber 123 \<noteq> JString (js ''123'')"
  by (simp add: encrypt_def decrypt_def messageBytes_def sharedSecretFor_def truthyStr_def
      stub_lib_def stub_jsonParse_def digitsValue_def isDigit_def js_def)

text \<open>
  The key agreement is the library's: \<open>createSharedSecret\<close> decodes the two keys and
  hands them to \<open>nacl.box.before\<close>, the public key first. On generated key pairs it is
  symmetric exactly when \<open>nacl.box.before\<close> is, which the repository does not contain.
\<close>

lemma createSharedSecret_delegates:
  assumes "\<forall>b. decodeBase64 L (encodeBase64 L b) = Some b"
  shows "createSharedSecret L (kp_privateKey (generateKeyPair L a))
           (kp_publicKey (generateKeyPair L b))
         = box_before L (box_publicKey L b) a"
  using assms by (simp add: createSharedSecret_def generateKeyPair_def)

end
